theory Spec2Isabelle
  imports Main
begin

section \<open>Data model (app/models/models.py, app/schemas/schemas.py)\<close>

text \<open>
  Each SQLAlchemy model class is a record with the columns of the class, under the
  column names of the source. Several classes share column names (\<open>id\<close>,
  \<open>is_premium\<close>, \<open>created_at\<close>), so a field is written with its record's name in
  front: \<open>user.is_premium\<close>, \<open>tax_guide.is_premium\<close>. Python's \<open>int\<close> is \<open>int\<close>,
  \<open>str\<close> is \<open>string\<close>, and a \<open>DateTime\<close> column is a point on an abstract clock.
\<close>

type_synonym timestamp = nat

record user =
  id :: int
  email :: string
  hashed_password :: string
  is_active :: bool
  is_premium :: bool
  created_at :: timestamp

record tax_guide =
  id :: int
  title :: string
  content :: string
  is_premium :: bool
  created_at :: timestamp
  updated_at :: "timestamp option"

record consultation =
  id :: int
  user_id :: int
  subject :: string
  message :: string
  status :: string
  created_at :: timestamp

record faq =
  id :: int
  question :: string
  answer :: string
  category :: string
  is_premium :: bool

text \<open>The request bodies \<open>schemas.UserCreate\<close> and \<open>schemas.ConsultationCreate\<close>.\<close>

record user_create =
  email :: string
  password :: string

record consultation_create =
  subject :: string
  message :: string

text \<open>
  The database behind a \<open>Session\<close>: one list of rows per table, in insertion order
  (the order in which an unordered query returns them), and the last value handed out
  by the sequence behind each autoincrementing primary key that the operations below
  insert into.
\<close>

record db =
  users :: "user list"
  tax_guides :: "tax_guide list"
  consultations :: "consultation list"
  faqs :: "faq list"
  users_id_seq :: int
  consultations_id_seq :: int

text \<open>
  Every way an operation can fail: the \<open>HTTPException\<close> a router raises (status code
  and detail), the \<open>AttributeError\<close> of an attribute access on \<open>None\<close>, the
  \<open>IntegrityError\<close> of a commit that violates a \<open>unique\<close> or \<open>ForeignKey\<close> constraint
  of models.py, and the \<open>DataError\<close> of a query with a negative \<open>OFFSET\<close> or \<open>LIMIT\<close>
  (the engine of db/init\_db.py is PostgreSQL, which rejects both).
\<close>

datatype error =
    HTTPException int string
  | AttributeError
  | IntegrityError
  | DataError

section \<open>CRUD operations (app/crud/crud.py)\<close>

text \<open>\<open>query.offset(skip).limit(limit).all()\<close>\<close>

definition offset_limit :: "int \<Rightarrow> int \<Rightarrow> 'a list \<Rightarrow> error + 'a list" where
  "offset_limit skip limit rows =
     (if skip < 0 \<or> limit < 0 then Inl DataError
      else Inr (take (nat limit) (drop (nat skip) rows)))"

text \<open>\<open>db.query(User).filter(User.email == email).first()\<close>: the first matching row, or \<open>None\<close>.\<close>

definition get_user_by_email :: "db \<Rightarrow> string \<Rightarrow> user option" where
  "get_user_by_email d e = find (\<lambda>u. user.email u = e) (users d)"

text \<open>
  \<open>crud.create_user\<close>. The password hash \<open>get_password_hash\<close> of app/core/auth.py is a
  parameter, and so is the time \<open>now\<close> that the server default of \<open>created_at\<close> reads.
  The row is built from the email and the hash alone; \<open>id\<close>, \<open>is_active\<close> and
  \<open>is_premium\<close> get the column defaults of models.py. The commit fails on an email the
  table already holds (\<open>unique=True\<close>), and then nothing is stored.
\<close>

definition crud_create_user ::
  "(string \<Rightarrow> string) \<Rightarrow> timestamp \<Rightarrow> db \<Rightarrow> user_create \<Rightarrow> (error + user) \<times> db" where
  "crud_create_user get_password_hash now d usr =
     (let hashed_password = get_password_hash (user_create.password usr);
          db_user = \<lparr>user.id = users_id_seq d + 1,
                     user.email = user_create.email usr,
                     user.hashed_password = hashed_password,
                     user.is_active = True,
                     user.is_premium = False,
                     user.created_at = now\<rparr>
      in if list_ex (\<lambda>u. user.email u = user.email db_user) (users d)
         then (Inl IntegrityError, d)
         else (Inr db_user,
               d\<lparr>users := users d @ [db_user], users_id_seq := users_id_seq d + 1\<rparr>))"

text \<open>
  \<open>crud.update_user_premium\<close>. On a missing user \<open>db_user\<close> is \<open>None\<close> and the assignment
  to \<open>db_user.is_premium\<close> raises before anything is committed. Otherwise the commit
  writes the flag to the row with the primary key of \<open>db_user\<close>.
\<close>

definition update_user_premium :: "db \<Rightarrow> string \<Rightarrow> bool \<Rightarrow> (error + user) \<times> db" where
  "update_user_premium d e premium =
     (case get_user_by_email d e of
        None \<Rightarrow> (Inl AttributeError, d)
      | Some db_user \<Rightarrow>
          (Inr (db_user\<lparr>user.is_premium := premium\<rparr>),
           d\<lparr>users := map (\<lambda>r. if user.id r = user.id db_user
                                then r\<lparr>user.is_premium := premium\<rparr> else r) (users d)\<rparr>))"

definition get_tax_guides :: "db \<Rightarrow> int \<Rightarrow> int \<Rightarrow> bool \<Rightarrow> error + tax_guide list" where
  "get_tax_guides d skip limit premium_only =
     (let query = tax_guides d;
          query = (if premium_only
                   then filter (\<lambda>g. tax_guide.is_premium g = True) query else query)
      in offset_limit skip limit query)"

definition get_tax_guide :: "db \<Rightarrow> int \<Rightarrow> tax_guide option" where
  "get_tax_guide d guide_id = find (\<lambda>g. tax_guide.id g = guide_id) (tax_guides d)"

text \<open>
  \<open>crud.create_consultation\<close>: \<open>status\<close> gets its column default, and the commit fails
  when \<open>user_id\<close> is the id of no user (\<open>ForeignKey("users.id")\<close>).
\<close>

definition crud_create_consultation ::
  "timestamp \<Rightarrow> db \<Rightarrow> consultation_create \<Rightarrow> int \<Rightarrow> (error + consultation) \<times> db" where
  "crud_create_consultation now d c uid =
     (let db_consultation = \<lparr>consultation.id = consultations_id_seq d + 1,
                             consultation.user_id = uid,
                             consultation.subject = consultation_create.subject c,
                             consultation.message = consultation_create.message c,
                             consultation.status = ''pending'',
                             consultation.created_at = now\<rparr>
      in if \<not> list_ex (\<lambda>u. user.id u = uid) (users d)
         then (Inl IntegrityError, d)
         else (Inr db_consultation,
               d\<lparr>consultations := consultations d @ [db_consultation],
                 consultations_id_seq := consultations_id_seq d + 1\<rparr>))"

definition get_user_consultations :: "db \<Rightarrow> int \<Rightarrow> consultation list" where
  "get_user_consultations d uid = filter (\<lambda>c. consultation.user_id c = uid) (consultations d)"

definition get_faqs :: "db \<Rightarrow> int \<Rightarrow> int \<Rightarrow> bool \<Rightarrow> error + faq list" where
  "get_faqs d skip limit premium_only =
     (let query = faqs d;
          query = (if premium_only
                   then filter (\<lambda>f. faq.is_premium f = True) query else query)
      in offset_limit skip limit query)"

definition get_faq_by_category :: "db \<Rightarrow> string \<Rightarrow> faq list" where
  "get_faq_by_category d cat = filter (\<lambda>f. faq.category f = cat) (faqs d)"

section \<open>Request handlers (app/routers)\<close>

text \<open>
  A handler is the Python function of the source, applied to its arguments. The caller's
  identity is the handler's \<open>current_user\<close> argument: \<open>None\<close> or a user row where the
  source declares \<open>current_user: User = None\<close>, a user row where it declares
  \<open>Depends(get_current_active_user)\<close>. A user object is truthy, so
  \<open>current_user and current_user.is_premium\<close> is false on \<open>None\<close> and the flag otherwise.
  Where the source declares \<open>current_user: User = None\<close> no dependency fills the
  parameter, and \<open>None\<close> is the value the handler runs with.
\<close>

subsection \<open>routers/tax\_guides.py\<close>

definition read_tax_guides :: "int \<Rightarrow> int \<Rightarrow> db \<Rightarrow> user option \<Rightarrow> error + tax_guide list" where
  "read_tax_guides skip limit d current_user =
     (let premium_only = False;
          premium_only = (if (case current_user of None \<Rightarrow> False
                                | Some u \<Rightarrow> user.is_premium u)
                          then True else premium_only)
      in get_tax_guides d skip limit premium_only)"

definition read_tax_guide :: "int \<Rightarrow> db \<Rightarrow> user option \<Rightarrow> error + tax_guide" where
  "read_tax_guide guide_id d current_user =
     (case get_tax_guide d guide_id of
        None \<Rightarrow> Inl (HTTPException 404 ''Tax guide not found'')
      | Some db_guide \<Rightarrow>
          if tax_guide.is_premium db_guide \<and>
             (case current_user of None \<Rightarrow> True | Some u \<Rightarrow> \<not> user.is_premium u)
          then Inl (HTTPException 403 ''Premium content requires subscription'')
          else Inr db_guide)"

subsection \<open>routers/faqs.py\<close>

definition read_faqs :: "int \<Rightarrow> int \<Rightarrow> db \<Rightarrow> user option \<Rightarrow> error + faq list" where
  "read_faqs skip limit d current_user =
     (let premium_only = False;
          premium_only = (if (case current_user of None \<Rightarrow> False
                                | Some u \<Rightarrow> user.is_premium u)
                          then True else premium_only)
      in get_faqs d skip limit premium_only)"

definition read_faq_by_category :: "string \<Rightarrow> db \<Rightarrow> faq list" where
  "read_faq_by_category cat d = get_faq_by_category d cat"

subsection \<open>routers/users.py\<close>

definition create_user ::
  "(string \<Rightarrow> string) \<Rightarrow> timestamp \<Rightarrow> user_create \<Rightarrow> db \<Rightarrow> (error + user) \<times> db" where
  "create_user get_password_hash now usr d =
     (case get_user_by_email d (user_create.email usr) of
        Some db_user \<Rightarrow> (Inl (HTTPException 400 ''Email already registered''), d)
      | None \<Rightarrow> crud_create_user get_password_hash now d usr)"

definition upgrade_to_premium :: "user \<Rightarrow> db \<Rightarrow> (error + user) \<times> db" where
  "upgrade_to_premium current_user d = update_user_premium d (user.email current_user) True"

subsection \<open>routers/consultations.py\<close>

definition create_consultation ::
  "timestamp \<Rightarrow> consultation_create \<Rightarrow> db \<Rightarrow> user \<Rightarrow> (error + consultation) \<times> db" where
  "create_consultation now c d current_user =
     crud_create_consultation now d c (user.id current_user)"

definition read_user_consultations :: "db \<Rightarrow> user \<Rightarrow> consultation list" where
  "read_user_consultations d current_user = get_user_consultations d (user.id current_user)"

section \<open>The development data of app/main.py\<close>

text \<open>
  The rows that \<open>startup_event\<close> adds to an empty catalogue, with the ids the sequences
  give them. The fourth guide and the fourth FAQ are premium.
\<close>

definition sample_premium_guide :: tax_guide where
  "sample_premium_guide =
     \<lparr>tax_guide.id = 4, title = ''Advanced Tax Planning for Non-Residents'',
      content = ''This premium guide covers advanced tax planning strategies...'',
      is_premium = True, created_at = 0, updated_at = None\<rparr>"

definition sample_tax_guides :: "tax_guide list" where
  "sample_tax_guides =
     [\<lparr>tax_guide.id = 1, title = ''US-China Tax Treaty Overview'',
       content = ''The United States and China have established a tax treaty to avoid double taxation...'',
       is_premium = False, created_at = 0, updated_at = None\<rparr>,
      \<lparr>tax_guide.id = 2, title = ''Form 1040-NR Guide for International Students'',
       content = ''As an international student, you'' @ [CHR 39] @ ''ll likely need to file Form 1040-NR...'',
       is_premium = False, created_at = 0, updated_at = None\<rparr>,
      \<lparr>tax_guide.id = 3, title = ''Scholarship Taxation for Non-Residents'',
       content = ''Scholarships and fellowships granted to non-residents may be subject to different tax rules...'',
       is_premium = False, created_at = 0, updated_at = None\<rparr>,
      sample_premium_guide]"

definition sample_premium_faq :: faq where
  "sample_premium_faq =
     \<lparr>faq.id = 4, question = ''What tax deductions can international students claim?'',
      answer = ''As a non-resident, you may be eligible for certain deductions...'',
      category = ''Deductions'', is_premium = True\<rparr>"

definition sample_faqs :: "faq list" where
  "sample_faqs =
     [\<lparr>faq.id = 1, question = ''Do I need to file a US tax return as an international student?'',
       answer = ''Yes, most international students will need to file at least one tax form, even if they didn'' @ [CHR 39] @ ''t earn income...'',
       category = ''Filing Requirements'', is_premium = False\<rparr>,
      \<lparr>faq.id = 2, question = ''What is Form 8843?'',
       answer = ''Form 8843 is a statement for exempt individuals with a medical condition or students...'',
       category = ''Forms'', is_premium = False\<rparr>,
      \<lparr>faq.id = 3, question = ''How does the US-China tax treaty affect my taxes?'',
       answer = ''The US-China tax treaty may provide exemptions or reduced rates for certain types of income...'',
       category = ''Tax Treaties'', is_premium = False\<rparr>,
      sample_premium_faq]"

definition sample_db :: db where
  "sample_db = \<lparr>users = [], tax_guides = sample_tax_guides, consultations = [],
                 faqs = sample_faqs, users_id_seq = 0, consultations_id_seq = 0\<rparr>"

text \<open>
  Two callers for the examples: a registered user as registration leaves it, and the
  same user after the upgrade to premium.
\<close>

definition sample_user :: user where
  "sample_user = \<lparr>user.id = 1, email = ''a@x.com'', hashed_password = ''$2b$12$hash'',
                   is_active = True, is_premium = False, created_at = 0\<rparr>"

definition sample_premium_user :: user where
  "sample_premium_user = sample_user\<lparr>user.is_premium := True\<rparr>"

text \<open>The development data with \<open>sample_user\<close> registered.\<close>

definition registered_db :: db where
  "registered_db = sample_db\<lparr>users := [sample_user], users_id_seq := 1\<rparr>"

section \<open>Lookup lemmas\<close>

lemma find_None_iff_set: "find P xs = None \<longleftrightarrow> \<not> list_ex P xs"
  by (induction xs) auto

lemma get_tax_guide_None: "get_tax_guide d gid = None \<longleftrightarrow> \<not> list_ex (\<lambda>g. tax_guide.id g = gid) (tax_guides d)"
  by (simp add: get_tax_guide_def find_None_iff_set)

lemma find_append_split:
  "find P (xs @ ys) = (case find P xs of None \<Rightarrow> find P ys | Some x \<Rightarrow> Some x)"
  by (induction xs) auto


lemma get_user_by_email_None:
  "get_user_by_email d e = None \<longleftrightarrow> \<not> list_ex (\<lambda>u. user.email u = e) (users d)"
  by (simp add: get_user_by_email_def find_None_iff_set)

lemma create_user_fresh:
  assumes "get_user_by_email d e = None"
  shows "create_user H now \<lparr>user_create.email = e, password = p\<rparr> d =
           (Inr \<lparr>user.id = users_id_seq d + 1, email = e, hashed_password = H p,
                  is_active = True, is_premium = False, created_at = now\<rparr>,
            d\<lparr>users := users d @ [\<lparr>user.id = users_id_seq d + 1, email = e, hashed_password = H p,
                  is_active = True, is_premium = False, created_at = now\<rparr>],
              users_id_seq := users_id_seq d + 1\<rparr>)"
proof -
  from assms have "\<not> list_ex (\<lambda>u. user.email u = e) (users d)"
    by (simp add: get_user_by_email_None)
  with assms show ?thesis
    by (simp add: create_user_def crud_create_user_def Let_def)
qed

lemma create_user_Inr:
  assumes "create_user H now usr d = (Inr u, d')"
  shows "get_user_by_email d (user_create.email usr) = None"
    and "u = \<lparr>user.id = users_id_seq d + 1, email = user_create.email usr,
               hashed_password = H (user_create.password usr),
               is_active = True, is_premium = False, created_at = now\<rparr>"
    and "d' = d\<lparr>users := users d @ [u], users_id_seq := users_id_seq d + 1\<rparr>"
  using assms
  by (auto simp: create_user_def crud_create_user_def Let_def split: option.splits if_splits)

lemma get_user_by_email_snoc:
  "get_user_by_email d e = None \<Longrightarrow> user.email u = e \<Longrightarrow>
   get_user_by_email (d\<lparr>users := users d @ [u], users_id_seq := n\<rparr>) e = Some u"
  by (simp add: get_user_by_email_def find_append_split)




lemma find_Some_first:
  "find P xs = Some x \<longleftrightarrow>
     P x \<and> (\<exists>pre post. xs = pre @ x # post \<and> (\<forall>y \<in> set pre. \<not> P y))"
proof (induction xs)
  case Nil
  show ?case by simp
next
  case (Cons a xs)
  show ?case
  proof (cases "P a")
    case True
    have "(\<exists>pre post. a # xs = pre @ x # post \<and> (\<forall>y \<in> set pre. \<not> P y)) \<longleftrightarrow> a = x" if "P x"
    proof
      assume "\<exists>pre post. a # xs = pre @ x # post \<and> (\<forall>y \<in> set pre. \<not> P y)"
      then obtain pre post where eq: "a # xs = pre @ x # post" and no: "\<forall>y \<in> set pre. \<not> P y"
        by blast
      show "a = x"
      proof (cases pre)
        case Nil
        with eq show ?thesis by simp
      next
        case (Cons b pre')
        with eq no True show ?thesis by simp
      qed
    next
      assume "a = x"
      then have "a # xs = [] @ x # xs \<and> (\<forall>y \<in> set []. \<not> P y)" by simp
      then show "\<exists>pre post. a # xs = pre @ x # post \<and> (\<forall>y \<in> set pre. \<not> P y)" by blast
    qed
    with True show ?thesis by auto
  next
    case False
    have "(\<exists>pre post. a # xs = pre @ x # post \<and> (\<forall>y \<in> set pre. \<not> P y))
          \<longleftrightarrow> (\<exists>pre post. xs = pre @ x # post \<and> (\<forall>y \<in> set pre. \<not> P y))" if "P x"
    proof
      assume "\<exists>pre post. a # xs = pre @ x # post \<and> (\<forall>y \<in> set pre. \<not> P y)"
      then obtain pre post where eq: "a # xs = pre @ x # post" and no: "\<forall>y \<in> set pre. \<not> P y"
        by blast
      show "\<exists>pre post. xs = pre @ x # post \<and> (\<forall>y \<in> set pre. \<not> P y)"
      proof (cases pre)
        case Nil
        with eq False that show ?thesis by simp
      next
        case (Cons b pre')
        with eq no have "xs = pre' @ x # post \<and> (\<forall>y \<in> set pre'. \<not> P y)" by simp
        then show ?thesis by blast
      qed
    next
      assume "\<exists>pre post. xs = pre @ x # post \<and> (\<forall>y \<in> set pre. \<not> P y)"
      then obtain pre post where "xs = pre @ x # post" and "\<forall>y \<in> set pre. \<not> P y"
        by blast
      with False have "a # xs = (a # pre) @ x # post \<and> (\<forall>y \<in> set (a # pre). \<not> P y)" by simp
      then show "\<exists>pre post. a # xs = pre @ x # post \<and> (\<forall>y \<in> set pre. \<not> P y)" by blast
    qed
    with False Cons.IH show ?thesis by auto
  qed
qed

lemma find_Some_distinct:
  "distinct (map f xs) \<Longrightarrow> find (\<lambda>y. f y = k) xs = Some x \<longleftrightarrow> x \<in> set xs \<and> f x = k"
  by (induction xs) (auto simp: image_iff)

lemma get_tax_guide_first:
  "get_tax_guide d gid = Some g \<longleftrightarrow>
     tax_guide.id g = gid
     \<and> (\<exists>pre post. tax_guides d = pre @ g # post \<and> (\<forall>x \<in> set pre. tax_guide.id x \<noteq> gid))"
  unfolding get_tax_guide_def by (rule find_Some_first)

lemma get_tax_guide_distinct:
  "distinct (map tax_guide.id (tax_guides d)) \<Longrightarrow>
     get_tax_guide d gid = Some g \<longleftrightarrow> g \<in> set (tax_guides d) \<and> tax_guide.id g = gid"
  unfolding get_tax_guide_def by (rule find_Some_distinct)

section \<open>The list endpoints\<close>

text \<open>
  Claim C1. A premium resource must reach no caller without a premium identity. The
  list handlers do not keep to it. On the development data, \<open>read_tax_guides\<close> with
  the default page returns all four guides, the premium one with its content among
  them, to the anonymous caller and to a registered user who is not premium;
  \<open>read_faqs\<close> does the same for the FAQs; and \<open>read_faq_by_category\<close>, which takes no
  caller at all, returns the premium FAQ of the category ``Deductions''.
\<close>

theorem premium_listed_to_non_premium_callers:
  "tax_guide.is_premium sample_premium_guide
   \<and> sample_premium_guide \<in> set sample_tax_guides
   \<and> read_tax_guides 0 100 sample_db None = Inr sample_tax_guides
   \<and> \<not> user.is_premium sample_user
   \<and> read_tax_guides 0 100 sample_db (Some sample_user) = Inr sample_tax_guides
   \<and> faq.is_premium sample_premium_faq
   \<and> sample_premium_faq \<in> set sample_faqs
   \<and> read_faqs 0 100 sample_db None = Inr sample_faqs
   \<and> read_faq_by_category ''Deductions'' sample_db = [sample_premium_faq]"
  apply (intro conjI)
  subgoal by (simp add: sample_premium_guide_def)
  subgoal by (simp add: sample_tax_guides_def)
  subgoal by (simp add: read_tax_guides_def get_tax_guides_def offset_limit_def sample_db_def sample_tax_guides_def)
  subgoal by (simp add: sample_user_def)
  subgoal by (simp add: read_tax_guides_def get_tax_guides_def offset_limit_def sample_db_def sample_tax_guides_def sample_user_def)
  subgoal by (simp add: sample_premium_faq_def)
  subgoal by (simp add: sample_faqs_def)
  subgoal by (simp add: read_faqs_def get_faqs_def offset_limit_def sample_db_def sample_faqs_def)
  subgoal by (simp add: read_faq_by_category_def get_faq_by_category_def sample_db_def sample_faqs_def sample_premium_faq_def)
  done

text \<open>
  Claim C2. A list endpoint should return the premium resources to a premium caller
  only, and the free ones to everyone. The handlers pass \<open>premium_only = True\<close> for a
  premium caller and \<open>False\<close> otherwise, so the filter works the other way round: on
  the development data the premium caller gets the one premium guide (and the one
  premium FAQ) and none of the free ones, and the anonymous caller gets the whole
  table, which is not the free subset.
\<close>

theorem list_filter_is_inverted:
  "user.is_premium sample_premium_user
   \<and> read_tax_guides 0 100 sample_db (Some sample_premium_user) = Inr [sample_premium_guide]
   \<and> read_faqs 0 100 sample_db (Some sample_premium_user) = Inr [sample_premium_faq]
   \<and> read_tax_guides 0 100 sample_db None = Inr sample_tax_guides
   \<and> read_tax_guides 0 100 sample_db None
       \<noteq> Inr (filter (\<lambda>g. \<not> tax_guide.is_premium g) (tax_guides sample_db))
   \<and> read_faqs 0 100 sample_db None
       \<noteq> Inr (filter (\<lambda>f. \<not> faq.is_premium f) (faqs sample_db))"
  apply (intro conjI)
  subgoal by (simp add: sample_premium_user_def)
  subgoal by (simp add: read_tax_guides_def get_tax_guides_def offset_limit_def sample_db_def sample_tax_guides_def sample_premium_user_def sample_premium_guide_def)
  subgoal by (simp add: read_faqs_def get_faqs_def offset_limit_def sample_db_def sample_faqs_def sample_premium_user_def sample_premium_faq_def)
  subgoal by (simp add: read_tax_guides_def get_tax_guides_def offset_limit_def sample_db_def sample_tax_guides_def)
  subgoal by (simp add: read_tax_guides_def get_tax_guides_def offset_limit_def sample_db_def sample_tax_guides_def sample_premium_guide_def)
  subgoal by (simp add: read_faqs_def get_faqs_def offset_limit_def sample_db_def sample_faqs_def sample_premium_faq_def)
  done

section \<open>Single fetch of a tax guide\<close>

text \<open>
  Claim C3. For every guide id and caller, \<open>read_tax_guide\<close> (GET /tax-guides/\{id\})
  raises the 404 error exactly when no stored guide has that id; raises the 403 error
  exactly when the stored guide with that id is premium and the caller is not a user
  with \<open>is_premium\<close>; and returns a guide exactly when it is the stored guide with
  that id, unchanged, and it is free or the caller is a user with \<open>is_premium\<close>. The
  stored guide with an id is the first row of the table with that id, all rows before
  it having other ids; where the ids of the table are distinct, as its primary key
  makes them, it is the row of the table with that id. The handler always does one of
  the three, and the two errors differ.
\<close>

theorem read_tax_guide_outcomes:
  "(read_tax_guide gid d cu = Inl (HTTPException 404 ''Tax guide not found'')
      \<longleftrightarrow> (\<forall>g \<in> set (tax_guides d). tax_guide.id g \<noteq> gid))
   \<and> (read_tax_guide gid d cu = Inl (HTTPException 403 ''Premium content requires subscription'')
      \<longleftrightarrow> (\<exists>pre g post. tax_guides d = pre @ g # post
               \<and> (\<forall>x \<in> set pre. tax_guide.id x \<noteq> gid)
               \<and> tax_guide.id g = gid \<and> tax_guide.is_premium g
               \<and> \<not> (\<exists>u. cu = Some u \<and> user.is_premium u)))
   \<and> (\<forall>g. read_tax_guide gid d cu = Inr g
      \<longleftrightarrow> (\<exists>pre post. tax_guides d = pre @ g # post
               \<and> (\<forall>x \<in> set pre. tax_guide.id x \<noteq> gid))
          \<and> tax_guide.id g = gid
          \<and> (tax_guide.is_premium g \<longrightarrow> (\<exists>u. cu = Some u \<and> user.is_premium u)))
   \<and> (distinct (map tax_guide.id (tax_guides d)) \<longrightarrow>
        (read_tax_guide gid d cu = Inl (HTTPException 403 ''Premium content requires subscription'')
           \<longleftrightarrow> (\<exists>g \<in> set (tax_guides d). tax_guide.id g = gid \<and> tax_guide.is_premium g
                    \<and> \<not> (\<exists>u. cu = Some u \<and> user.is_premium u)))
        \<and> (\<forall>g. read_tax_guide gid d cu = Inr g
           \<longleftrightarrow> g \<in> set (tax_guides d) \<and> tax_guide.id g = gid
               \<and> (tax_guide.is_premium g \<longrightarrow> (\<exists>u. cu = Some u \<and> user.is_premium u))))
   \<and> ((\<exists>g. read_tax_guide gid d cu = Inr g)
       \<or> read_tax_guide gid d cu = Inl (HTTPException 404 ''Tax guide not found'')
       \<or> read_tax_guide gid d cu = Inl (HTTPException 403 ''Premium content requires subscription''))
   \<and> HTTPException 404 ''Tax guide not found'' \<noteq> HTTPException 403 ''Premium content requires subscription''"
proof -
  let ?qualifies = "\<exists>u. cu = Some u \<and> user.is_premium u"
  let ?e404 = "Inl (HTTPException 404 ''Tax guide not found'') :: error + tax_guide"
  let ?e403 = "Inl (HTTPException 403 ''Premium content requires subscription'') :: error + tax_guide"
  have not_found: "read_tax_guide gid d cu = ?e404 \<longleftrightarrow> get_tax_guide d gid = None"
    by (auto simp: read_tax_guide_def split: option.splits)
  have forbidden: "read_tax_guide gid d cu = ?e403
      \<longleftrightarrow> (\<exists>g. get_tax_guide d gid = Some g \<and> tax_guide.is_premium g \<and> \<not> ?qualifies)"
    by (auto simp: read_tax_guide_def split: option.splits)
  have returned: "read_tax_guide gid d cu = Inr g
      \<longleftrightarrow> get_tax_guide d gid = Some g \<and> (tax_guide.is_premium g \<longrightarrow> ?qualifies)" for g
    by (auto simp: read_tax_guide_def split: option.splits)
  have c1: "read_tax_guide gid d cu = ?e404 \<longleftrightarrow> (\<forall>g \<in> set (tax_guides d). tax_guide.id g \<noteq> gid)"
    unfolding not_found by (simp add: get_tax_guide_None list_ex_iff)
  have c2: "read_tax_guide gid d cu = ?e403
      \<longleftrightarrow> (\<exists>pre g post. tax_guides d = pre @ g # post
               \<and> (\<forall>x \<in> set pre. tax_guide.id x \<noteq> gid)
               \<and> tax_guide.id g = gid \<and> tax_guide.is_premium g \<and> \<not> ?qualifies)"
    unfolding forbidden get_tax_guide_first by blast
  have c3: "\<forall>g. read_tax_guide gid d cu = Inr g
      \<longleftrightarrow> (\<exists>pre post. tax_guides d = pre @ g # post
               \<and> (\<forall>x \<in> set pre. tax_guide.id x \<noteq> gid))
          \<and> tax_guide.id g = gid
          \<and> (tax_guide.is_premium g \<longrightarrow> ?qualifies)"
    unfolding returned get_tax_guide_first by blast
  have c4: "(read_tax_guide gid d cu = ?e403
           \<longleftrightarrow> (\<exists>g \<in> set (tax_guides d). tax_guide.id g = gid \<and> tax_guide.is_premium g
                    \<and> \<not> ?qualifies))
        \<and> (\<forall>g. read_tax_guide gid d cu = Inr g
           \<longleftrightarrow> g \<in> set (tax_guides d) \<and> tax_guide.id g = gid
               \<and> (tax_guide.is_premium g \<longrightarrow> ?qualifies))"
    if pk: "distinct (map tax_guide.id (tax_guides d))"
    unfolding forbidden returned get_tax_guide_distinct [OF pk] by blast
  have c5: "(\<exists>g. read_tax_guide gid d cu = Inr g)
       \<or> read_tax_guide gid d cu = ?e404 \<or> read_tax_guide gid d cu = ?e403"
    by (auto simp: read_tax_guide_def split: option.splits)
  have c6: "HTTPException 404 ''Tax guide not found'' \<noteq> HTTPException 403 ''Premium content requires subscription''"
    by simp
  from c1 c2 c3 c4 c5 c6 show ?thesis by blast
qed

text \<open>
  On the development data: guide 5 is absent; guide 4 is premium, refused to the
  anonymous caller and to the user who is not premium, and returned as stored to the
  premium user; guide 1 is free and returned as stored.
\<close>

theorem read_tax_guide_outcomes_witness:
  "distinct (map tax_guide.id (tax_guides sample_db))
   \<and> read_tax_guide 5 sample_db (Some sample_premium_user) = Inl (HTTPException 404 ''Tax guide not found'')
   \<and> read_tax_guide 4 sample_db None = Inl (HTTPException 403 ''Premium content requires subscription'')
   \<and> read_tax_guide 4 sample_db (Some sample_user) = Inl (HTTPException 403 ''Premium content requires subscription'')
   \<and> read_tax_guide 4 sample_db (Some sample_premium_user) = Inr sample_premium_guide
   \<and> read_tax_guide 1 sample_db None
       = Inr \<lparr>tax_guide.id = 1, title = ''US-China Tax Treaty Overview'',
              content = ''The United States and China have established a tax treaty to avoid double taxation...'',
              is_premium = False, created_at = 0, updated_at = None\<rparr>"
proof -
  let ?free = "\<lparr>tax_guide.id = 1, title = ''US-China Tax Treaty Overview'',
              content = ''The United States and China have established a tax treaty to avoid double taxation...'',
              is_premium = False, created_at = 0, updated_at = None\<rparr>"
  have pk: "distinct (map tax_guide.id (tax_guides sample_db))"
    by (simp add: sample_db_def sample_tax_guides_def sample_premium_guide_def)
  have absent: "\<forall>g \<in> set (tax_guides sample_db). tax_guide.id g \<noteq> 5"
    by (simp add: sample_db_def sample_tax_guides_def sample_premium_guide_def)
  have premium: "sample_premium_guide \<in> set (tax_guides sample_db)
                 \<and> tax_guide.id sample_premium_guide = 4 \<and> tax_guide.is_premium sample_premium_guide"
    by (simp add: sample_db_def sample_tax_guides_def sample_premium_guide_def)
  have free: "?free \<in> set (tax_guides sample_db) \<and> tax_guide.id ?free = 1 \<and> \<not> tax_guide.is_premium ?free"
    by (simp add: sample_db_def sample_tax_guides_def)
  have callers: "\<not> user.is_premium sample_user \<and> user.is_premium sample_premium_user"
    by (simp add: sample_user_def sample_premium_user_def)
  have r404: "read_tax_guide 5 sample_db (Some sample_premium_user) = Inl (HTTPException 404 ''Tax guide not found'')"
    using read_tax_guide_outcomes [of 5 sample_db "Some sample_premium_user"] absent by blast
  have r403a: "read_tax_guide 4 sample_db None = Inl (HTTPException 403 ''Premium content requires subscription'')"
    using read_tax_guide_outcomes [of 4 sample_db None] pk premium by blast
  have r403b: "read_tax_guide 4 sample_db (Some sample_user) = Inl (HTTPException 403 ''Premium content requires subscription'')"
    using read_tax_guide_outcomes [of 4 sample_db "Some sample_user"] pk premium callers by blast
  have rprem: "read_tax_guide 4 sample_db (Some sample_premium_user) = Inr sample_premium_guide"
    using read_tax_guide_outcomes [of 4 sample_db "Some sample_premium_user"] pk premium callers by blast
  have rfree: "read_tax_guide 1 sample_db None = Inr ?free"
    using read_tax_guide_outcomes [of 1 sample_db None] pk free by blast
  from pk r404 r403a r403b rprem rfree show ?thesis by blast
qed

text \<open>
  Claim C4. A user who registers, upgrades to premium and then fetches a premium
  guide should receive it. The route of \<open>read_tax_guide\<close> does not get that far:
  routers/tax\_guides.py declares \<open>current_user: User = None\<close> with no dependency
  (users.py and consultations.py declare \<open>Depends(get_current_active_user)\<close>, which
  tax\_guides.py imports and never uses), so nothing of a request reaches the parameter
  and the handler runs with \<open>None\<close>. On the development data a@x.com registers and is
  refused guide 4; after the upgrade the stored row of a@x.com is premium and guide 4
  is stored and premium, and the fetch is refused with 403 all the same. Given the
  stored row as \<open>current_user\<close> the handler would return the guide.
\<close>

theorem upgraded_user_still_refused:
  "\<exists>u d1 u' d2.
      create_user rev 0 \<lparr>user_create.email = ''a@x.com'', password = ''pw''\<rparr> sample_db = (Inr u, d1)
    \<and> read_tax_guide 4 d1 None
        = Inl (HTTPException 403 ''Premium content requires subscription'')
    \<and> upgrade_to_premium u d1 = (Inr u', d2)
    \<and> get_user_by_email d2 ''a@x.com'' = Some u'
    \<and> user.is_premium u'
    \<and> get_tax_guide d2 4 = Some sample_premium_guide
    \<and> tax_guide.is_premium sample_premium_guide
    \<and> read_tax_guide 4 d2 None
        = Inl (HTTPException 403 ''Premium content requires subscription'')
    \<and> read_tax_guide 4 d2 (Some u') = Inr sample_premium_guide"
proof -
  let ?u = "\<lparr>user.id = 1, email = ''a@x.com'', hashed_password = ''wp'',
             is_active = True, is_premium = False, created_at = 0\<rparr>"
  let ?d1 = "sample_db\<lparr>users := [?u], users_id_seq := 1\<rparr>"
  let ?u' = "?u\<lparr>user.is_premium := True\<rparr>"
  let ?d2 = "?d1\<lparr>users := [?u']\<rparr>"
  have reg: "create_user rev 0 \<lparr>user_create.email = ''a@x.com'', password = ''pw''\<rparr> sample_db = (Inr ?u, ?d1)"
    by (simp add: create_user_def crud_create_user_def get_user_by_email_def sample_db_def Let_def)
  have guide1: "get_tax_guide ?d1 4 = Some sample_premium_guide"
    by (simp add: get_tax_guide_def sample_db_def sample_tax_guides_def sample_premium_guide_def)
  have guide2: "get_tax_guide ?d2 4 = Some sample_premium_guide"
    by (simp add: get_tax_guide_def sample_db_def sample_tax_guides_def sample_premium_guide_def)
  have prem: "tax_guide.is_premium sample_premium_guide"
    by (simp add: sample_premium_guide_def)
  have before: "read_tax_guide 4 ?d1 None = Inl (HTTPException 403 ''Premium content requires subscription'')"
    by (simp add: read_tax_guide_def get_tax_guide_def sample_db_def sample_tax_guides_def sample_premium_guide_def)
  have up: "upgrade_to_premium ?u ?d1 = (Inr ?u', ?d2)"
    by (simp add: upgrade_to_premium_def update_user_premium_def get_user_by_email_def)
  have stored: "get_user_by_email ?d2 ''a@x.com'' = Some ?u'"
    by (simp add: get_user_by_email_def)
  have flag: "user.is_premium ?u'"
    by simp
  have after: "read_tax_guide 4 ?d2 None = Inl (HTTPException 403 ''Premium content requires subscription'')"
    by (simp add: read_tax_guide_def get_tax_guide_def sample_db_def sample_tax_guides_def sample_premium_guide_def)
  have wired: "read_tax_guide 4 ?d2 (Some ?u') = Inr sample_premium_guide"
    by (simp add: read_tax_guide_def get_tax_guide_def sample_db_def sample_tax_guides_def sample_premium_guide_def)
  from reg before up stored flag guide2 prem after wired show ?thesis by blast
qed

section \<open>Registration\<close>

text \<open>
  Claim C5. A registration succeeds exactly when the store holds no user with the
  email. On an email that is not stored yet it appends the new user, and registering
  the same email again, whatever the password, fails with the 400
  ``Email already registered'' error and leaves the store as the first call left it.
  From any store, however the first call ended, the second call for the same email
  ends this way: the lookup by email comes before the insert.
\<close>

theorem register_twice:
  "((\<exists>u d1. create_user H t1 \<lparr>user_create.email = e, password = p1\<rparr> d = (Inr u, d1))
       \<longleftrightarrow> get_user_by_email d e = None)
   \<and> (get_user_by_email d e = None \<longrightarrow>
        (\<exists>u d1. create_user H t1 \<lparr>user_create.email = e, password = p1\<rparr> d = (Inr u, d1)
           \<and> user.email u = e
           \<and> users d1 = users d @ [u]
           \<and> get_user_by_email d1 e = Some u
           \<and> create_user H t2 \<lparr>user_create.email = e, password = p2\<rparr> d1
               = (Inl (HTTPException 400 ''Email already registered''), d1)))
   \<and> create_user H t2 \<lparr>user_create.email = e, password = p2\<rparr>
         (snd (create_user H t1 \<lparr>user_create.email = e, password = p1\<rparr> d))
       = (Inl (HTTPException 400 ''Email already registered''),
          snd (create_user H t1 \<lparr>user_create.email = e, password = p1\<rparr> d))"
proof -
  let ?u = "\<lparr>user.id = users_id_seq d + 1, email = e, hashed_password = H p1,
             is_active = True, is_premium = False, created_at = t1\<rparr>"
  let ?d1 = "d\<lparr>users := users d @ [?u], users_id_seq := users_id_seq d + 1\<rparr>"
  have first: "create_user H t1 \<lparr>user_create.email = e, password = p1\<rparr> d = (Inr ?u, ?d1)"
    if "get_user_by_email d e = None"
    using that by (rule create_user_fresh)
  have stored: "get_user_by_email ?d1 e = Some ?u"
    if "get_user_by_email d e = None"
    using that by (simp add: get_user_by_email_snoc)
  have second: "create_user H t2 \<lparr>user_create.email = e, password = p2\<rparr> ?d1
                  = (Inl (HTTPException 400 ''Email already registered''), ?d1)"
    if "get_user_by_email d e = None"
    using stored [OF that] by (simp add: create_user_def)
  have taken: "create_user H t \<lparr>user_create.email = e, password = p\<rparr> d
                 = (Inl (HTTPException 400 ''Email already registered''), d)"
    if "get_user_by_email d e = Some u" for u t p
    using that by (simp add: create_user_def)
  have a: "(\<exists>u d1. create_user H t1 \<lparr>user_create.email = e, password = p1\<rparr> d = (Inr u, d1))
       \<longleftrightarrow> get_user_by_email d e = None"
  proof (cases "get_user_by_email d e")
    case None
    with first show ?thesis by simp
  next
    case (Some u)
    with taken [OF Some] show ?thesis by simp
  qed
  have b: "get_user_by_email d e = None \<longrightarrow>
        (\<exists>u d1. create_user H t1 \<lparr>user_create.email = e, password = p1\<rparr> d = (Inr u, d1)
           \<and> user.email u = e
           \<and> users d1 = users d @ [u]
           \<and> get_user_by_email d1 e = Some u
           \<and> create_user H t2 \<lparr>user_create.email = e, password = p2\<rparr> d1
               = (Inl (HTTPException 400 ''Email already registered''), d1))"
    using first stored second by simp
  have c: "create_user H t2 \<lparr>user_create.email = e, password = p2\<rparr>
         (snd (create_user H t1 \<lparr>user_create.email = e, password = p1\<rparr> d))
       = (Inl (HTTPException 400 ''Email already registered''),
          snd (create_user H t1 \<lparr>user_create.email = e, password = p1\<rparr> d))"
  proof (cases "get_user_by_email d e")
    case None
    with first second show ?thesis by simp
  next
    case (Some u)
    with taken [OF Some] show ?thesis by simp
  qed
  from a b c show ?thesis by blast
qed

theorem register_twice_witness:
  "get_user_by_email sample_db ''a@x.com'' = None
   \<and> (\<exists>u d1. create_user rev 1 \<lparr>user_create.email = ''a@x.com'', password = ''pw''\<rparr> sample_db = (Inr u, d1)
           \<and> user.email u = ''a@x.com''
           \<and> users d1 = users sample_db @ [u]
           \<and> get_user_by_email d1 ''a@x.com'' = Some u
           \<and> create_user rev 2 \<lparr>user_create.email = ''a@x.com'', password = ''other''\<rparr> d1
               = (Inl (HTTPException 400 ''Email already registered''), d1))"
proof -
  have fresh: "get_user_by_email sample_db ''a@x.com'' = None"
    by (simp add: get_user_by_email_def sample_db_def)
  from fresh register_twice [of rev 1 "''a@x.com''" "''pw''" sample_db 2 "''other''"] show ?thesis
    by simp
qed

text \<open>
  Claim C6. After a successful registration the stored credential is the hash of the
  raw password, and the raw password is in no field of the stored row: every field of
  the row is given here, and the outcome of a registration (the returned row and the
  whole store) depends on the password through its hash alone, so two passwords with
  the same hash give the same outcome.
\<close>

theorem registration_stores_hash_only:
  "(create_user H now usr d = (Inr u, d') \<longrightarrow>
      u = \<lparr>user.id = users_id_seq d + 1, email = user_create.email usr,
            hashed_password = H (user_create.password usr),
            is_active = True, is_premium = False, created_at = now\<rparr>
      \<and> get_user_by_email d' (user_create.email usr) = Some u
      \<and> d' = d\<lparr>users := users d @ [u], users_id_seq := users_id_seq d + 1\<rparr>)
   \<and> (H p = H (user_create.password usr) \<longrightarrow>
        create_user H now (usr\<lparr>user_create.password := p\<rparr>) d = create_user H now usr d)"
proof (intro conjI impI)
  assume ok: "create_user H now usr d = (Inr u, d')"
  note facts = create_user_Inr [OF ok]
  show "u = \<lparr>user.id = users_id_seq d + 1, email = user_create.email usr,
            hashed_password = H (user_create.password usr),
            is_active = True, is_premium = False, created_at = now\<rparr>"
    by (rule facts(2))
  show "d' = d\<lparr>users := users d @ [u], users_id_seq := users_id_seq d + 1\<rparr>"
    by (rule facts(3))
  have "user.email u = user_create.email usr"
    by (simp add: facts(2))
  with facts(1) show "get_user_by_email d' (user_create.email usr) = Some u"
    unfolding facts(3) by (rule get_user_by_email_snoc)
next
  assume "H p = H (user_create.password usr)"
  then show "create_user H now (usr\<lparr>user_create.password := p\<rparr>) d = create_user H now usr d"
    by (simp add: create_user_def crud_create_user_def Let_def split: option.splits)
qed

theorem registration_stores_hash_only_witness:
  "create_user (take 1) 7 \<lparr>user_create.email = ''a@x.com'', password = ''secret''\<rparr> sample_db
     = (Inr \<lparr>user.id = 1, email = ''a@x.com'', hashed_password = ''s'',
             is_active = True, is_premium = False, created_at = 7\<rparr>,
        sample_db\<lparr>users := [\<lparr>user.id = 1, email = ''a@x.com'', hashed_password = ''s'',
             is_active = True, is_premium = False, created_at = 7\<rparr>], users_id_seq := 1\<rparr>)
   \<and> take 1 ''swordfish'' = take 1 ''secret''
   \<and> create_user (take 1) 7 \<lparr>user_create.email = ''a@x.com'', password = ''swordfish''\<rparr> sample_db
     = create_user (take 1) 7 \<lparr>user_create.email = ''a@x.com'', password = ''secret''\<rparr> sample_db"
proof -
  have run: "create_user (take 1) 7 \<lparr>user_create.email = ''a@x.com'', password = ''secret''\<rparr> sample_db
     = (Inr \<lparr>user.id = 1, email = ''a@x.com'', hashed_password = ''s'',
             is_active = True, is_premium = False, created_at = 7\<rparr>,
        sample_db\<lparr>users := [\<lparr>user.id = 1, email = ''a@x.com'', hashed_password = ''s'',
             is_active = True, is_premium = False, created_at = 7\<rparr>], users_id_seq := 1\<rparr>)"
    by (simp add: create_user_def crud_create_user_def get_user_by_email_def sample_db_def Let_def)
  have same: "take 1 ''swordfish'' = take 1 ''secret''"
    by simp
  from run same
       registration_stores_hash_only [of "take 1" 7 "\<lparr>user_create.email = ''a@x.com'', password = ''secret''\<rparr>" sample_db _ _ "''swordfish''"]
  show ?thesis by simp
qed

text \<open>
  Claim C10. A user created through registration is active and not premium, both in
  the row that \<open>create_user\<close> returns and in the row stored under the email.
\<close>

theorem registration_default_flags:
  "create_user H now usr d = (Inr u, d') \<Longrightarrow>
     user.is_active u = True \<and> user.is_premium u = False
     \<and> (\<exists>s. get_user_by_email d' (user_create.email usr) = Some s
            \<and> user.is_active s = True \<and> user.is_premium s = False)"
proof -
  assume ok: "create_user H now usr d = (Inr u, d')"
  note facts = create_user_Inr [OF ok]
  have flags: "user.is_active u = True \<and> user.is_premium u = False"
    by (simp add: facts(2))
  have "user.email u = user_create.email usr"
    by (simp add: facts(2))
  with facts(1) have "get_user_by_email d' (user_create.email usr) = Some u"
    unfolding facts(3) by (rule get_user_by_email_snoc)
  with flags show ?thesis by simp
qed

theorem registration_default_flags_witness:
  "\<exists>u d'. create_user rev 3 \<lparr>user_create.email = ''b@x.com'', password = ''pw''\<rparr> sample_db = (Inr u, d')
     \<and> user.is_active u = True \<and> user.is_premium u = False
     \<and> (\<exists>s. get_user_by_email d' ''b@x.com'' = Some s
            \<and> user.is_active s = True \<and> user.is_premium s = False)"
proof -
  obtain u d' where run: "create_user rev 3 \<lparr>user_create.email = ''b@x.com'', password = ''pw''\<rparr> sample_db = (Inr u, d')"
    by (simp add: create_user_def crud_create_user_def get_user_by_email_def sample_db_def Let_def)
  from run registration_default_flags [OF run] show ?thesis by simp
qed

section \<open>The premium flag\<close>



text \<open>
  Claim C9. \<open>update_user_premium\<close> needs a stored user with the email. The lookup
  yields nothing exactly when no stored user has the email, and then the call fails
  with the \<open>AttributeError\<close> and leaves the store alone; when the lookup yields a user
  the call returns that user with the flag set; and the call fails in no other case.
\<close>

theorem update_user_premium_requires_user:
  "(get_user_by_email d e = None \<longleftrightarrow> (\<forall>u \<in> set (users d). user.email u \<noteq> e))
   \<and> (get_user_by_email d e = None \<longrightarrow> update_user_premium d e v = (Inl AttributeError, d))
   \<and> (\<forall>u. get_user_by_email d e = Some u \<longrightarrow>
          (\<exists>d'. update_user_premium d e v = (Inr (u\<lparr>user.is_premium := v\<rparr>), d')))
   \<and> ((\<exists>err d'. update_user_premium d e v = (Inl err, d')) \<longleftrightarrow> get_user_by_email d e = None)"
  apply (intro conjI allI impI)
  subgoal by (simp add: get_user_by_email_None list_ex_iff)
  subgoal by (simp add: update_user_premium_def)
  subgoal by (simp add: update_user_premium_def)
  subgoal by (auto simp: update_user_premium_def split: option.splits)
  done

theorem update_user_premium_requires_user_witness:
  "get_user_by_email registered_db ''nobody@x.com'' = None
   \<and> update_user_premium registered_db ''nobody@x.com'' True = (Inl AttributeError, registered_db)
   \<and> get_user_by_email registered_db ''a@x.com'' = Some sample_user
   \<and> (\<exists>d'. update_user_premium registered_db ''a@x.com'' True = (Inr sample_premium_user, d'))"
proof -
  have missing: "\<forall>u \<in> set (users registered_db). user.email u \<noteq> ''nobody@x.com''"
    by (simp add: registered_db_def sample_user_def)
  have found: "get_user_by_email registered_db ''a@x.com'' = Some sample_user"
    by (simp add: get_user_by_email_def registered_db_def sample_user_def)
  from missing found
       update_user_premium_requires_user [of registered_db "''nobody@x.com''" True]
       update_user_premium_requires_user [of registered_db "''a@x.com''" True]
  show ?thesis
    by (simp add: sample_premium_user_def)
qed

section \<open>Consultations\<close>

text \<open>
  Claim C8. A consultation that \<open>create_consultation\<close> (POST /consultations/) creates
  has the caller's id as its \<open>user_id\<close>, is appended to the table, is in the caller's
  own list and in the list of no user with another id; the call succeeds for a caller
  who is a stored user; and \<open>read_user_consultations\<close> (GET /consultations/) returns
  exactly the stored consultations whose \<open>user_id\<close> is the caller's id.
\<close>

theorem consultations_owned_by_caller:
  "(create_consultation now c d cu = (Inr x, d') \<longrightarrow>
       consultation.user_id x = user.id cu
       \<and> consultations d' = consultations d @ [x]
       \<and> x \<in> set (read_user_consultations d' cu)
       \<and> (\<forall>other. user.id other \<noteq> user.id cu \<longrightarrow> x \<notin> set (read_user_consultations d' other)))
   \<and> (cu \<in> set (users d) \<longrightarrow> (\<exists>x d'. create_consultation now c d cu = (Inr x, d')))
   \<and> read_user_consultations d cu = filter (\<lambda>x. consultation.user_id x = user.id cu) (consultations d)
   \<and> set (read_user_consultations d cu) = {x \<in> set (consultations d). consultation.user_id x = user.id cu}"
  apply (intro conjI allI impI)
  subgoal by (auto simp: create_consultation_def crud_create_consultation_def Let_def split: if_splits)
  subgoal by (auto simp: create_consultation_def crud_create_consultation_def Let_def split: if_splits)
  subgoal by (auto simp: create_consultation_def crud_create_consultation_def Let_def
                         read_user_consultations_def get_user_consultations_def split: if_splits)
  subgoal by (auto simp: create_consultation_def crud_create_consultation_def Let_def
                         read_user_consultations_def get_user_consultations_def split: if_splits)
  subgoal by (auto simp: create_consultation_def crud_create_consultation_def Let_def list_ex_iff)
  subgoal by (simp add: read_user_consultations_def get_user_consultations_def)
  subgoal by (auto simp: read_user_consultations_def get_user_consultations_def)
  done

theorem consultations_owned_by_caller_witness:
  "sample_user \<in> set (users registered_db)
   \<and> (\<exists>x d'. create_consultation 5 \<lparr>consultation_create.subject = ''Form 8843'', message = ''Help''\<rparr>
                 registered_db sample_user = (Inr x, d')
          \<and> consultation.user_id x = 1
          \<and> consultations d' = [x]
          \<and> read_user_consultations d' sample_user = [x]
          \<and> x \<notin> set (read_user_consultations d' (sample_user\<lparr>user.id := 2\<rparr>)))"
proof -
  have stored: "sample_user \<in> set (users registered_db)"
    by (simp add: registered_db_def)
  let ?c = "\<lparr>consultation_create.subject = ''Form 8843'', message = ''Help''\<rparr>"
  from stored consultations_owned_by_caller [of 5 ?c registered_db sample_user]
  obtain x d' where run: "create_consultation 5 ?c registered_db sample_user = (Inr x, d')"
    by blast
  have other: "user.id (sample_user\<lparr>user.id := 2\<rparr>) \<noteq> user.id sample_user"
    by (simp add: sample_user_def)
  have empty: "consultations registered_db = []"
    by (simp add: registered_db_def sample_db_def)
  have uid: "user.id sample_user = 1"
    by (simp add: sample_user_def)
  from run other consultations_owned_by_caller [of 5 ?c registered_db sample_user x d']
  have own: "consultation.user_id x = 1" and all: "consultations d' = [x]"
    and notin: "x \<notin> set (read_user_consultations d' (sample_user\<lparr>user.id := 2\<rparr>))"
    by (simp_all add: empty uid)
  from consultations_owned_by_caller [of 5 ?c d' sample_user] own all
  have mine: "read_user_consultations d' sample_user = [x]"
    by (simp add: uid)
  from stored run own all mine notin show ?thesis by blast
qed

end
